theory Spec2Isabelle
  imports Main
begin

section \<open>JavaScript values\<close>

text \<open>
  The gateway of \<^verbatim>\<open>src/index.ts\<close> receives its arguments as parsed JSON and hands
  the backend's answers to \<^verbatim>\<open>JSON.stringify\<close>. A value is therefore a JSON value;
  \<^verbatim>\<open>undefined\<close> is \<open>None\<close> of \<open>json option\<close>. Strings are \<open>string\<close> (one \<open>char\<close>
  per code unit, so the model covers the code units below 256), numbers are the integers
  that JavaScript prints in plain decimal. The list of an object holds its own properties
  in the order in which JavaScript enumerates them.
\<close>

datatype json =
    JNull
  | JBool bool
  | JNum int
  | JStr string
  | JArr "json list"
  | JObj "(string \<times> json) list"

text \<open>Decimal printing of an integer; \<open>digit_char\<close> is applied to digits below ten only.\<close>

definition digit_char :: "nat \<Rightarrow> char" where
  "digit_char d = ''0123456789'' ! d"

fun show_nat :: "nat \<Rightarrow> string" where
  "show_nat n = (if n < 10 then [digit_char n] else show_nat (n div 10) @ [digit_char (n mod 10)])"

declare show_nat.simps [simp del]

definition show_int :: "int \<Rightarrow> string" where
  "show_int i = (if i < 0 then CHR ''-'' # show_nat (nat (- i)) else show_nat (nat i))"

fun join :: "string \<Rightarrow> string list \<Rightarrow> string" where
  "join sep [] = []"
| "join sep [x] = x"
| "join sep (x # y # ys) = x @ sep @ join sep (y # ys)"

subsection \<open>\<^verbatim>\<open>JSON.stringify(value, null, 2)\<close>\<close>

text \<open>
  A string is printed between double quotes; the quote, the backslash and the control
  characters are escaped, the latter as \<^verbatim>\<open>\u00XX\<close> (lower-case digits, a value below
  sixteen each) unless a short form exists.
\<close>

definition hex_char :: "nat \<Rightarrow> char" where
  "hex_char d = ''0123456789abcdef'' ! d"

definition quote_char :: "char \<Rightarrow> string" where
  "quote_char c =
     (if c = CHR 0x22 then [CHR 0x5C, CHR 0x22]
      else if c = CHR 0x5C then [CHR 0x5C, CHR 0x5C]
      else if c = CHR 0x08 then [CHR 0x5C, CHR ''b'']
      else if c = CHR 0x0C then [CHR 0x5C, CHR ''f'']
      else if c = CHR 0x0A then [CHR 0x5C, CHR ''n'']
      else if c = CHR 0x0D then [CHR 0x5C, CHR ''r'']
      else if c = CHR 0x09 then [CHR 0x5C, CHR ''t'']
      else if (of_char c :: nat) < 32
        then [CHR 0x5C, CHR ''u'', CHR ''0'', CHR ''0'',
              hex_char (of_char c div 16), hex_char (of_char c mod 16)]
      else [c])"

definition quote :: "string \<Rightarrow> string" where
  "quote s = CHR 0x22 # concat (map quote_char s) @ [CHR 0x22]"

fun stringify_at :: "string \<Rightarrow> json \<Rightarrow> string" where
  "stringify_at ind JNull = ''null''"
| "stringify_at ind (JBool b) = (if b then ''true'' else ''false'')"
| "stringify_at ind (JNum n) = show_int n"
| "stringify_at ind (JStr s) = quote s"
| "stringify_at ind (JArr xs) =
     (if xs = [] then ''[]''
      else ''['' @ [CHR 0x0A]
           @ join ('','' @ [CHR 0x0A])
               (map (\<lambda>x. ind @ ''  '' @ stringify_at (ind @ ''  '') x) xs)
           @ [CHR 0x0A] @ ind @ '']'')"
| "stringify_at ind (JObj kvs) =
     (if kvs = [] then ''{}''
      else ''{'' @ [CHR 0x0A]
           @ join ('','' @ [CHR 0x0A])
               (map (\<lambda>kv. ind @ ''  '' @ quote (fst kv) @ '': ''
                            @ stringify_at (ind @ ''  '') (snd kv)) kvs)
           @ [CHR 0x0A] @ ind @ ''}'')"

definition JSON_stringify :: "json \<Rightarrow> string" where
  "JSON_stringify v = stringify_at [] v"

subsection \<open>Conversions and operators the backend applies to untyped arguments\<close>

text \<open>
  The casts of the gateway (\<^verbatim>\<open>args.title as string\<close>) check nothing, so every backend
  method receives whatever JSON value the caller sent, or \<^verbatim>\<open>undefined\<close>.
\<close>

text \<open>\<^verbatim>\<open>ToString\<close>, as a template literal applies it.\<close>

fun js_string :: "json \<Rightarrow> string" where
  "js_string JNull = ''null''"
| "js_string (JBool b) = (if b then ''true'' else ''false'')"
| "js_string (JNum n) = show_int n"
| "js_string (JStr s) = s"
| "js_string (JArr xs) = join '','' (map (\<lambda>x. if x = JNull then [] else js_string x) xs)"
| "js_string (JObj kvs) = ''[object Object]''"

definition template :: "json option \<Rightarrow> string" where
  "template v = (case v of None \<Rightarrow> ''undefined'' | Some x \<Rightarrow> js_string x)"

text \<open>\<^verbatim>\<open>ToBoolean\<close>, and \<^verbatim>\<open>a || b\<close>.\<close>

fun truthy :: "json option \<Rightarrow> bool" where
  "truthy None = False"
| "truthy (Some JNull) = False"
| "truthy (Some (JBool b)) = b"
| "truthy (Some (JNum n)) = (n \<noteq> 0)"
| "truthy (Some (JStr s)) = (s \<noteq> [])"
| "truthy (Some (JArr xs)) = True"
| "truthy (Some (JObj kvs)) = True"

definition js_or :: "json option \<Rightarrow> json option \<Rightarrow> json option" where
  "js_or a b = (if truthy a then a else b)"

text \<open>A parameter default \<^verbatim>\<open>p = d\<close>: it applies to \<^verbatim>\<open>undefined\<close> only, not to \<^verbatim>\<open>null\<close>.\<close>

definition default_param :: "json option \<Rightarrow> json \<Rightarrow> json option" where
  "default_param v d = (case v of None \<Rightarrow> Some d | Some x \<Rightarrow> Some x)"

text \<open>
  The property \<^verbatim>\<open>length\<close> of a value that is neither \<^verbatim>\<open>null\<close> nor \<^verbatim>\<open>undefined\<close>, and
  \<^verbatim>\<open>v?.length\<close>.
\<close>

fun length_of :: "json \<Rightarrow> json option" where
  "length_of (JArr xs) = Some (JNum (int (length xs)))"
| "length_of (JStr s) = Some (JNum (int (length s)))"
| "length_of (JObj kvs) = map_of kvs ''length''"
| "length_of v = None"

fun optional_length :: "json option \<Rightarrow> json option" where
  "optional_length None = None"
| "optional_length (Some JNull) = None"
| "optional_length (Some v) = length_of v"

text \<open>
  An object literal whose property names are written in the source: the properties in
  source order. A property whose value is \<^verbatim>\<open>undefined\<close> is left out, as
  \<^verbatim>\<open>JSON.stringify\<close> and the request serialiser leave it out.
\<close>

definition obj :: "(string \<times> json option) list \<Rightarrow> json" where
  "obj props = JObj (concat (map (\<lambda>(k, v). case v of None \<Rightarrow> [] | Some x \<Rightarrow> [(k, x)]) props))"

text \<open>
  The spread \<^verbatim>\<open>{ sheetId, ...range }\<close> of \<^verbatim>\<open>formatCells\<close>. A spread copies the own
  properties of its operand: those of an object, the indexed elements of an array or of a
  string, nothing of any other value. A copied property overwrites one of the same name
  in place; the result enumerates array indices first, in ascending order.
\<close>

fun spread :: "json option \<Rightarrow> (string \<times> json option) list" where
  "spread (Some (JObj kvs)) = map (\<lambda>kv. (fst kv, Some (snd kv))) kvs"
| "spread (Some (JArr xs)) = map (\<lambda>i. (show_nat i, Some (xs ! i))) [0..<length xs]"
| "spread (Some (JStr s)) = map (\<lambda>i. (show_nat i, Some (JStr [s ! i]))) [0..<length s]"
| "spread v = []"

fun put_prop :: "(string \<times> 'v) list \<Rightarrow> string \<times> 'v \<Rightarrow> (string \<times> 'v) list" where
  "put_prop [] kv = [kv]"
| "put_prop (p # ps) kv = (if fst p = fst kv then kv # ps else p # put_prop ps kv)"

definition digit_value :: "char \<Rightarrow> int" where
  "digit_value c = of_char c - 48"

definition array_index :: "string \<Rightarrow> int option" where
  "array_index k =
     (if k \<noteq> [] \<and> list_all (\<lambda>c. 48 \<le> (of_char c :: int) \<and> (of_char c :: int) \<le> 57) k
         \<and> (length k = 1 \<or> hd k \<noteq> CHR ''0'')
         \<and> foldl (\<lambda>n c. 10 * n + digit_value c) 0 k < 4294967295
      then Some (foldl (\<lambda>n c. 10 * n + digit_value c) 0 k)
      else None)"

definition own_property_order :: "(string \<times> 'v) list \<Rightarrow> (string \<times> 'v) list" where
  "own_property_order ps =
     sort_key (\<lambda>p. case array_index (fst p) of Some n \<Rightarrow> n | None \<Rightarrow> 0)
       (filter (\<lambda>p. array_index (fst p) \<noteq> None) ps)
     @ filter (\<lambda>p. array_index (fst p) = None) ps"

definition obj_spread :: "(string \<times> json option) list \<Rightarrow> json option \<Rightarrow> json" where
  "obj_spread props v = obj (own_property_order (foldl put_prop props (spread v)))"

section \<open>Exceptions, and what the program takes from its surroundings\<close>

text \<open>
  A thrown value is an \<^verbatim>\<open>Error\<close> object; the program reads its \<^verbatim>\<open>message\<close>, and
  \<^verbatim>\<open>verifyConnection\<close> also its \<^verbatim>\<open>code\<close>, \<^verbatim>\<open>details\<close> and \<^verbatim>\<open>stack\<close>.
\<close>

record js_error =
  message :: string
  code :: "json option"
  details :: "json option"
  stack :: "json option"

text \<open>
  An asynchronous computation over the state \<open>'s\<close> of the remote service: it ends with
  the state it leaves and either a value or a thrown error. Every remote call is assumed
  to settle.
\<close>

type_synonym ('a, 's) io = "'s \<Rightarrow> (js_error + 'a) \<times> 's"

definition return_io :: "'a \<Rightarrow> ('a, 's) io" where
  "return_io x = (\<lambda>s. (Inr x, s))"

definition throw_io :: "js_error \<Rightarrow> ('a, 's) io" where
  "throw_io e = (\<lambda>s. (Inl e, s))"

definition bind_io :: "('a, 's) io \<Rightarrow> ('a \<Rightarrow> ('b, 's) io) \<Rightarrow> ('b, 's) io" where
  "bind_io m f = (\<lambda>s. case m s of (Inl e, s') \<Rightarrow> (Inl e, s') | (Inr x, s') \<Rightarrow> f x s')"

definition try_catch :: "('a, 's) io \<Rightarrow> (js_error \<Rightarrow> ('a, 's) io) \<Rightarrow> ('a, 's) io" where
  "try_catch m h = (\<lambda>s. case m s of (Inl e, s') \<Rightarrow> h e s' | (Inr x, s') \<Rightarrow> (Inr x, s'))"

text \<open>
  What the program imports and does not define: the protocol library's error class (the
  message its constructor builds from a code and a text), the errors the engine throws
  for a call of a value that is no function and for a property read of \<^verbatim>\<open>null\<close>, the
  engine's comparison \<^verbatim>\<open>v > 0\<close> of a string converted to a number, and the clock.
\<close>

record 's runtime =
  McpError :: "int \<Rightarrow> string \<Rightarrow> js_error"
  TypeError_not_a_function :: "string \<Rightarrow> js_error"
  TypeError_read_of_null :: "string \<Rightarrow> js_error"
  string_gt_zero :: "string \<Rightarrow> bool"
  Date_toISOString :: "'s \<Rightarrow> string"

definition MethodNotFound :: int where
  "MethodNotFound = - 32601"

text \<open>\<^verbatim>\<open>v > 0\<close>.\<close>

fun gt_zero :: "'s runtime \<Rightarrow> json option \<Rightarrow> bool" where
  "gt_zero rt None = False"
| "gt_zero rt (Some JNull) = False"
| "gt_zero rt (Some (JBool b)) = b"
| "gt_zero rt (Some (JNum n)) = (0 < n)"
| "gt_zero rt (Some v) = string_gt_zero rt (js_string v)"

text \<open>
  \<^verbatim>\<open>data.p\<close> for the property names this program reads from a response
  (\<^verbatim>\<open>spreadsheetId\<close>, \<^verbatim>\<open>files\<close>, \<^verbatim>\<open>nextPageToken\<close>), none of which a prototype defines.
\<close>

fun get_prop :: "'s runtime \<Rightarrow> json \<Rightarrow> string \<Rightarrow> (json option, 's) io" where
  "get_prop rt JNull p = throw_io (TypeError_read_of_null rt p)"
| "get_prop rt (JObj kvs) p = return_io (map_of kvs p)"
| "get_prop rt v p = return_io None"

text \<open>\<^verbatim>\<open>sheets.map(f)\<close>, for a \<^verbatim>\<open>sheets\<close> that is truthy: only an array has the method.\<close>

fun Array_map :: "'s runtime \<Rightarrow> string \<Rightarrow> (json \<Rightarrow> json) \<Rightarrow> json option \<Rightarrow> (json list, 's) io" where
  "Array_map rt callee f (Some (JArr xs)) = return_io (map f xs)"
| "Array_map rt callee f v = throw_io (TypeError_not_a_function rt callee)"

section \<open>The backend client (\<^verbatim>\<open>GoogleSheetsClient\<close>)\<close>

text \<open>
  The two handles of the remote service. Each operation takes the parameter object the
  source builds and resolves to \<^verbatim>\<open>response.data\<close>, or rejects.
\<close>

record 's sheets_v4 =
  spreadsheets_create :: "json \<Rightarrow> (json, 's) io"
  spreadsheets_get :: "json \<Rightarrow> (json, 's) io"
  spreadsheets_batchUpdate :: "json \<Rightarrow> (json, 's) io"
  spreadsheets_values_update :: "json \<Rightarrow> (json, 's) io"
  spreadsheets_values_append :: "json \<Rightarrow> (json, 's) io"
  spreadsheets_values_get :: "json \<Rightarrow> (json, 's) io"
  spreadsheets_values_clear :: "json \<Rightarrow> (json, 's) io"

record 's drive_v3 =
  files_list :: "json \<Rightarrow> (json, 's) io"
  files_delete :: "json \<Rightarrow> (json, 's) io"
  permissions_create :: "json \<Rightarrow> (json, 's) io"

datatype auth_value = AuthString string | AuthGoogleAuth | AuthOAuth2 | AuthOther

record 's GoogleSheetsClient =
  sheetsClient :: "'s sheets_v4"
  driveClient :: "'s drive_v3"
  projectId :: string
  auth :: auth_value

text \<open>The \<^verbatim>\<open>catch\<close> block most methods share: \<^verbatim>\<open>return { error: error.message }\<close>.\<close>

definition error_payload :: "js_error \<Rightarrow> json" where
  "error_payload error = obj [(''error'', Some (JStr (message error)))]"

definition createSpreadsheet ::
  "'s runtime \<Rightarrow> 's GoogleSheetsClient \<Rightarrow> json option \<Rightarrow> json option \<Rightarrow> (json, 's) io" where
  "createSpreadsheet rt c title sheets =
     try_catch
       (bind_io
          (if truthy sheets \<and> gt_zero rt (optional_length sheets)
           then bind_io
                  (Array_map rt ''sheets.map''
                     (\<lambda>sheetName. obj [(''properties'', Some (obj [(''title'', Some sheetName)]))])
                     sheets)
                  (\<lambda>mapped. return_io
                     (obj [(''properties'', Some (obj [(''title'', title)])),
                           (''sheets'', Some (JArr mapped))]))
           else return_io (obj [(''properties'', Some (obj [(''title'', title)]))]))
          (\<lambda>resource.
             bind_io (spreadsheets_create (sheetsClient c) (obj [(''requestBody'', Some resource)]))
               (\<lambda>data.
                  bind_io (get_prop rt data ''spreadsheetId'')
                    (\<lambda>spreadsheetId. return_io
                       (obj [(''spreadsheetId'', spreadsheetId),
                             (''title'', title),
                             (''url'', Some (JStr (''https://docs.google.com/spreadsheets/d/''
                                                   @ template spreadsheetId @ ''/edit''))),
                             (''spreadsheet'', Some data)])))))
       (\<lambda>error. return_io (error_payload error))"

definition getSpreadsheet ::
  "'s GoogleSheetsClient \<Rightarrow> json option \<Rightarrow> json option \<Rightarrow> (json, 's) io" where
  "getSpreadsheet c spreadsheetId includeGridData =
     try_catch
       (spreadsheets_get (sheetsClient c)
          (obj [(''spreadsheetId'', spreadsheetId),
                (''includeGridData'', default_param includeGridData (JBool False))]))
       (\<lambda>error. return_io (error_payload error))"

definition updateValues ::
  "'s GoogleSheetsClient \<Rightarrow> json option \<Rightarrow> json option \<Rightarrow> json option \<Rightarrow> json option
     \<Rightarrow> (json, 's) io" where
  "updateValues c spreadsheetId range' values valueInputOption =
     try_catch
       (spreadsheets_values_update (sheetsClient c)
          (obj [(''spreadsheetId'', spreadsheetId),
                (''range'', range'),
                (''valueInputOption'', default_param valueInputOption (JStr ''USER_ENTERED'')),
                (''requestBody'', Some (obj [(''values'', values)]))]))
       (\<lambda>error. return_io (error_payload error))"

definition appendValues ::
  "'s GoogleSheetsClient \<Rightarrow> json option \<Rightarrow> json option \<Rightarrow> json option \<Rightarrow> json option
     \<Rightarrow> (json, 's) io" where
  "appendValues c spreadsheetId range' values valueInputOption =
     try_catch
       (spreadsheets_values_append (sheetsClient c)
          (obj [(''spreadsheetId'', spreadsheetId),
                (''range'', range'),
                (''valueInputOption'', default_param valueInputOption (JStr ''USER_ENTERED'')),
                (''requestBody'', Some (obj [(''values'', values)]))]))
       (\<lambda>error. return_io (error_payload error))"

definition getValues ::
  "'s GoogleSheetsClient \<Rightarrow> json option \<Rightarrow> json option \<Rightarrow> (json, 's) io" where
  "getValues c spreadsheetId range' =
     try_catch
       (spreadsheets_values_get (sheetsClient c)
          (obj [(''spreadsheetId'', spreadsheetId), (''range'', range')]))
       (\<lambda>error. return_io (error_payload error))"

definition clearValues ::
  "'s GoogleSheetsClient \<Rightarrow> json option \<Rightarrow> json option \<Rightarrow> (json, 's) io" where
  "clearValues c spreadsheetId range' =
     try_catch
       (spreadsheets_values_clear (sheetsClient c)
          (obj [(''spreadsheetId'', spreadsheetId), (''range'', range')]))
       (\<lambda>error. return_io (error_payload error))"

definition addSheet ::
  "'s GoogleSheetsClient \<Rightarrow> json option \<Rightarrow> json option \<Rightarrow> (json, 's) io" where
  "addSheet c spreadsheetId sheetTitle =
     try_catch
       (spreadsheets_batchUpdate (sheetsClient c)
          (obj [(''spreadsheetId'', spreadsheetId),
                (''requestBody'', Some (obj [(''requests'', Some (JArr
                   [obj [(''addSheet'', Some (obj [(''properties'', Some (obj
                      [(''title'', sheetTitle)]))]))]]))]))]))
       (\<lambda>error. return_io (error_payload error))"

definition deleteSheet ::
  "'s GoogleSheetsClient \<Rightarrow> json option \<Rightarrow> json option \<Rightarrow> (json, 's) io" where
  "deleteSheet c spreadsheetId sheetId =
     try_catch
       (spreadsheets_batchUpdate (sheetsClient c)
          (obj [(''spreadsheetId'', spreadsheetId),
                (''requestBody'', Some (obj [(''requests'', Some (JArr
                   [obj [(''deleteSheet'', Some (obj [(''sheetId'', sheetId)]))]]))]))]))
       (\<lambda>error. return_io (error_payload error))"

definition spreadsheet_mime_query :: string where
  "spreadsheet_mime_query = ''mimeType='' @ [CHR 0x27] @ ''application/vnd.google-apps.spreadsheet'' @ [CHR 0x27]"

definition listSpreadsheets ::
  "'s runtime \<Rightarrow> 's GoogleSheetsClient \<Rightarrow> json option \<Rightarrow> json option \<Rightarrow> (json, 's) io" where
  "listSpreadsheets rt c pageSize pageToken =
     try_catch
       (bind_io
          (files_list (driveClient c)
             (obj [(''pageSize'', default_param pageSize (JNum 10)),
                   (''pageToken'', pageToken),
                   (''q'', Some (JStr spreadsheet_mime_query)),
                   (''fields'', Some (JStr
                      ''nextPageToken, files(id, name, createdTime, modifiedTime, webViewLink)''))]))
          (\<lambda>data.
             bind_io (get_prop rt data ''files'')
               (\<lambda>files.
                  bind_io (get_prop rt data ''nextPageToken'')
                    (\<lambda>nextPageToken. return_io
                       (obj [(''spreadsheets'', files), (''nextPageToken'', nextPageToken)])))))
       (\<lambda>error. return_io (error_payload error))"

definition deleteSpreadsheet ::
  "'s GoogleSheetsClient \<Rightarrow> json option \<Rightarrow> (json, 's) io" where
  "deleteSpreadsheet c spreadsheetId =
     try_catch
       (bind_io (files_delete (driveClient c) (obj [(''fileId'', spreadsheetId)]))
          (\<lambda>data. return_io
             (obj [(''success'', Some (JBool True)),
                   (''spreadsheetId'', spreadsheetId),
                   (''message'', Some (JStr (''Spreadsheet '' @ template spreadsheetId
                                             @ '' successfully deleted'')))])))
       (\<lambda>error. return_io
          (obj [(''success'', Some (JBool False)), (''error'', Some (JStr (message error)))]))"

definition shareSpreadsheet ::
  "'s GoogleSheetsClient \<Rightarrow> json option \<Rightarrow> json option \<Rightarrow> json option \<Rightarrow> (json, 's) io" where
  "shareSpreadsheet c spreadsheetId emailAddress role =
     try_catch
       (bind_io
          (permissions_create (driveClient c)
             (obj [(''fileId'', spreadsheetId),
                   (''requestBody'', Some (obj
                      [(''type'', Some (JStr ''user'')),
                       (''role'', default_param role (JStr ''reader'')),
                       (''emailAddress'', emailAddress)]))]))
          (\<lambda>data. return_io
             (obj [(''success'', Some (JBool True)),
                   (''spreadsheetId'', spreadsheetId),
                   (''permission'', Some data)])))
       (\<lambda>error. return_io
          (obj [(''success'', Some (JBool False)), (''error'', Some (JStr (message error)))]))"

definition searchSpreadsheets ::
  "'s runtime \<Rightarrow> 's GoogleSheetsClient \<Rightarrow> json option \<Rightarrow> json option \<Rightarrow> json option
     \<Rightarrow> (json, 's) io" where
  "searchSpreadsheets rt c query pageSize pageToken =
     try_catch
       (bind_io
          (files_list (driveClient c)
             (obj [(''pageSize'', default_param pageSize (JNum 10)),
                   (''pageToken'', pageToken),
                   (''q'', Some (JStr (spreadsheet_mime_query @ '' and name contains ''
                                       @ [CHR 0x27] @ template query @ [CHR 0x27]))),
                   (''fields'', Some (JStr
                      ''nextPageToken, files(id, name, createdTime, modifiedTime, webViewLink)''))]))
          (\<lambda>data.
             bind_io (get_prop rt data ''files'')
               (\<lambda>files.
                  bind_io (get_prop rt data ''nextPageToken'')
                    (\<lambda>nextPageToken. return_io
                       (obj [(''spreadsheets'', files), (''nextPageToken'', nextPageToken)])))))
       (\<lambda>error. return_io (error_payload error))"

definition formatCells ::
  "'s GoogleSheetsClient \<Rightarrow> json option \<Rightarrow> json option \<Rightarrow> json option \<Rightarrow> json option
     \<Rightarrow> (json, 's) io" where
  "formatCells c spreadsheetId sheetId range' format =
     try_catch
       (spreadsheets_batchUpdate (sheetsClient c)
          (obj [(''spreadsheetId'', spreadsheetId),
                (''requestBody'', Some (obj [(''requests'', Some (JArr
                   [obj [(''repeatCell'', Some (obj
                      [(''range'', Some (obj_spread [(''sheetId'', sheetId)] range')),
                       (''cell'', Some (obj [(''userEnteredFormat'', format)])),
                       (''fields'', Some (JStr ''userEnteredFormat''))]))]]))]))]))
       (\<lambda>error. return_io (error_payload error))"

definition getAuthType :: "'s GoogleSheetsClient \<Rightarrow> string" where
  "getAuthType c =
     (case auth c of
        AuthString k \<Rightarrow> ''API Key''
      | AuthGoogleAuth \<Rightarrow> ''Service Account''
      | AuthOAuth2 \<Rightarrow> ''OAuth2''
      | AuthOther \<Rightarrow> ''Unknown'')"

definition verifyConnection :: "'s runtime \<Rightarrow> 's GoogleSheetsClient \<Rightarrow> (json, 's) io" where
  "verifyConnection rt c =
     try_catch
       (bind_io
          (files_list (driveClient c)
             (obj [(''pageSize'', Some (JNum 1)),
                   (''q'', Some (JStr spreadsheet_mime_query)),
                   (''fields'', Some (JStr ''files(id, name)''))]))
          (\<lambda>data.
             bind_io (get_prop rt data ''files'')
               (\<lambda>files s. return_io
                  (obj [(''connected'', Some (JBool True)),
                        (''projectId'', Some (JStr (projectId c))),
                        (''timestamp'', Some (JStr (Date_toISOString rt s))),
                        (''details'', Some (obj
                           [(''authType'', Some (JStr (getAuthType c))),
                            (''apiVersion'', Some (JStr ''v4'')),
                            (''spreadsheetCount'',
                               js_or (optional_length files) (Some (JNum 0)))]))]) s)))
       (\<lambda>error s. return_io
          (obj [(''connected'', Some (JBool False)),
                (''projectId'', Some (JStr (projectId c))),
                (''timestamp'', Some (JStr (Date_toISOString rt s))),
                (''error'', Some (obj
                   [(''message'', Some (JStr (message error))),
                    (''code'', js_or (code error) (Some (JStr ''UNKNOWN_ERROR''))),
                    (''details'', js_or (details error) (stack error))]))]) s)"

section \<open>The tool catalogue\<close>

text \<open>
  The array \<^verbatim>\<open>tools\<close> of the handler of \<^verbatim>\<open>ListToolsRequestSchema\<close>, in source order. An
  input schema is the JSON object the source writes.
\<close>

record Tool =
  name :: string
  description :: string
  inputSchema :: json

definition tool_google_sheets_create :: Tool where
  "tool_google_sheets_create =
     \<lparr>name = ''google_sheets_create'',
      description = ''Create a new Google Sheet'',
      inputSchema =
        JObj
          [(''type'', JStr ''object''),
           (''properties'', JObj
              [(''title'', JObj [(''type'', JStr ''string''), (''description'', JStr ''Title of the spreadsheet'')]),
               (''sheets'', JObj [(''type'', JStr ''array''), (''items'', JObj [(''type'', JStr ''string'')]),
                  (''description'', JStr ''Array of sheet names to create (optional)'')])]),
           (''required'', JArr [JStr ''title''])]\<rparr>"

definition tool_google_sheets_get :: Tool where
  "tool_google_sheets_get =
     \<lparr>name = ''google_sheets_get'',
      description = ''Get a Google Sheet by ID'',
      inputSchema =
        JObj
          [(''type'', JStr ''object''),
           (''properties'', JObj
              [(''spreadsheetId'', JObj [(''type'', JStr ''string''), (''description'', JStr ''ID of the spreadsheet to retrieve'')]),
               (''includeGridData'', JObj [(''type'', JStr ''boolean''), (''description'', JStr ''Whether to include grid data (cell values)'')])]),
           (''required'', JArr [JStr ''spreadsheetId''])]\<rparr>"

definition tool_google_sheets_update_values :: Tool where
  "tool_google_sheets_update_values =
     \<lparr>name = ''google_sheets_update_values'',
      description = ''Update values in a Google Sheet'',
      inputSchema =
        JObj
          [(''type'', JStr ''object''),
           (''properties'', JObj
              [(''spreadsheetId'', JObj [(''type'', JStr ''string''), (''description'', JStr ''ID of the spreadsheet to update'')]),
               (''range'', JObj [(''type'', JStr ''string''), (''description'', JStr (''Range to update (e.g., '' @ [CHR 0x22] @ ''Sheet1!A1:B2'' @ [CHR 0x22] @ '')''))]),
               (''values'', JObj [(''type'', JStr ''array''), (''description'', JStr ''2D array of values to update'')]),
               (''valueInputOption'', JObj [(''type'', JStr ''string''), (''description'', JStr ''How to interpret the values (RAW or USER_ENTERED)'')])]),
           (''required'', JArr [JStr ''spreadsheetId'', JStr ''range'', JStr ''values''])]\<rparr>"

definition tool_google_sheets_append_values :: Tool where
  "tool_google_sheets_append_values =
     \<lparr>name = ''google_sheets_append_values'',
      description = ''Append values to a Google Sheet'',
      inputSchema =
        JObj
          [(''type'', JStr ''object''),
           (''properties'', JObj
              [(''spreadsheetId'', JObj [(''type'', JStr ''string''), (''description'', JStr ''ID of the spreadsheet to update'')]),
               (''range'', JObj [(''type'', JStr ''string''), (''description'', JStr (''Range to append to (e.g., '' @ [CHR 0x22] @ ''Sheet1!A1'' @ [CHR 0x22] @ '')''))]),
               (''values'', JObj [(''type'', JStr ''array''), (''description'', JStr ''2D array of values to append'')]),
               (''valueInputOption'', JObj [(''type'', JStr ''string''), (''description'', JStr ''How to interpret the values (RAW or USER_ENTERED)'')])]),
           (''required'', JArr [JStr ''spreadsheetId'', JStr ''range'', JStr ''values''])]\<rparr>"

definition tool_google_sheets_get_values :: Tool where
  "tool_google_sheets_get_values =
     \<lparr>name = ''google_sheets_get_values'',
      description = ''Get values from a Google Sheet'',
      inputSchema =
        JObj
          [(''type'', JStr ''object''),
           (''properties'', JObj
              [(''spreadsheetId'', JObj [(''type'', JStr ''string''), (''description'', JStr ''ID of the spreadsheet to read'')]),
               (''range'', JObj [(''type'', JStr ''string''), (''description'', JStr (''Range to read (e.g., '' @ [CHR 0x22] @ ''Sheet1!A1:B2'' @ [CHR 0x22] @ '')''))])]),
           (''required'', JArr [JStr ''spreadsheetId'', JStr ''range''])]\<rparr>"

definition tool_google_sheets_clear_values :: Tool where
  "tool_google_sheets_clear_values =
     \<lparr>name = ''google_sheets_clear_values'',
      description = ''Clear values from a Google Sheet'',
      inputSchema =
        JObj
          [(''type'', JStr ''object''),
           (''properties'', JObj
              [(''spreadsheetId'', JObj [(''type'', JStr ''string''), (''description'', JStr ''ID of the spreadsheet to clear'')]),
               (''range'', JObj [(''type'', JStr ''string''), (''description'', JStr (''Range to clear (e.g., '' @ [CHR 0x22] @ ''Sheet1!A1:B2'' @ [CHR 0x22] @ '')''))])]),
           (''required'', JArr [JStr ''spreadsheetId'', JStr ''range''])]\<rparr>"

definition tool_google_sheets_add_sheet :: Tool where
  "tool_google_sheets_add_sheet =
     \<lparr>name = ''google_sheets_add_sheet'',
      description = ''Add a new sheet to an existing spreadsheet'',
      inputSchema =
        JObj
          [(''type'', JStr ''object''),
           (''properties'', JObj
              [(''spreadsheetId'', JObj [(''type'', JStr ''string''), (''description'', JStr ''ID of the spreadsheet to update'')]),
               (''sheetTitle'', JObj [(''type'', JStr ''string''), (''description'', JStr ''Title of the new sheet'')])]),
           (''required'', JArr [JStr ''spreadsheetId'', JStr ''sheetTitle''])]\<rparr>"

definition tool_google_sheets_delete_sheet :: Tool where
  "tool_google_sheets_delete_sheet =
     \<lparr>name = ''google_sheets_delete_sheet'',
      description = ''Delete a sheet from a spreadsheet'',
      inputSchema =
        JObj
          [(''type'', JStr ''object''),
           (''properties'', JObj
              [(''spreadsheetId'', JObj [(''type'', JStr ''string''), (''description'', JStr ''ID of the spreadsheet'')]),
               (''sheetId'', JObj [(''type'', JStr ''number''), (''description'', JStr ''ID of the sheet to delete'')])]),
           (''required'', JArr [JStr ''spreadsheetId'', JStr ''sheetId''])]\<rparr>"

definition tool_google_sheets_list :: Tool where
  "tool_google_sheets_list =
     \<lparr>name = ''google_sheets_list'',
      description = ''List Google Sheets accessible to the authenticated user'',
      inputSchema =
        JObj
          [(''type'', JStr ''object''),
           (''properties'', JObj
              [(''pageSize'', JObj [(''type'', JStr ''number''), (''description'', JStr ''Number of spreadsheets to return (default: 10)'')]),
               (''pageToken'', JObj [(''type'', JStr ''string''), (''description'', JStr ''Token for pagination'')])])]\<rparr>"

definition tool_google_sheets_delete :: Tool where
  "tool_google_sheets_delete =
     \<lparr>name = ''google_sheets_delete'',
      description = ''Delete a Google Sheet'',
      inputSchema =
        JObj
          [(''type'', JStr ''object''),
           (''properties'', JObj
              [(''spreadsheetId'', JObj [(''type'', JStr ''string''), (''description'', JStr ''ID of the spreadsheet to delete'')])]),
           (''required'', JArr [JStr ''spreadsheetId''])]\<rparr>"

definition tool_google_sheets_share :: Tool where
  "tool_google_sheets_share =
     \<lparr>name = ''google_sheets_share'',
      description = ''Share a Google Sheet with specific users'',
      inputSchema =
        JObj
          [(''type'', JStr ''object''),
           (''properties'', JObj
              [(''spreadsheetId'', JObj [(''type'', JStr ''string''), (''description'', JStr ''ID of the spreadsheet to share'')]),
               (''emailAddress'', JObj [(''type'', JStr ''string''), (''description'', JStr ''Email address to share with'')]),
               (''role'', JObj [(''type'', JStr ''string''), (''description'', JStr ''Role to assign (reader, writer, commenter)'')])]),
           (''required'', JArr [JStr ''spreadsheetId'', JStr ''emailAddress''])]\<rparr>"

definition tool_google_sheets_search :: Tool where
  "tool_google_sheets_search =
     \<lparr>name = ''google_sheets_search'',
      description = ''Search for Google Sheets by title'',
      inputSchema =
        JObj
          [(''type'', JStr ''object''),
           (''properties'', JObj
              [(''query'', JObj [(''type'', JStr ''string''), (''description'', JStr ''Search query for spreadsheet title'')]),
               (''pageSize'', JObj [(''type'', JStr ''number''), (''description'', JStr ''Number of results to return (default: 10)'')]),
               (''pageToken'', JObj [(''type'', JStr ''string''), (''description'', JStr ''Token for pagination'')])]),
           (''required'', JArr [JStr ''query''])]\<rparr>"

definition tool_google_sheets_format_cells :: Tool where
  "tool_google_sheets_format_cells =
     \<lparr>name = ''google_sheets_format_cells'',
      description = ''Format cells in a Google Sheet'',
      inputSchema =
        JObj
          [(''type'', JStr ''object''),
           (''properties'', JObj
              [(''spreadsheetId'', JObj [(''type'', JStr ''string''), (''description'', JStr ''ID of the spreadsheet'')]),
               (''sheetId'', JObj [(''type'', JStr ''number''), (''description'', JStr ''ID of the sheet'')]),
               (''range'', JObj [(''type'', JStr ''object''), (''description'', JStr ''Range to format''),
                  (''properties'', JObj
                     [(''startRowIndex'', JObj [(''type'', JStr ''number'')]),
                      (''endRowIndex'', JObj [(''type'', JStr ''number'')]),
                      (''startColumnIndex'', JObj [(''type'', JStr ''number'')]),
                      (''endColumnIndex'', JObj [(''type'', JStr ''number'')])]),
                  (''required'', JArr [JStr ''startRowIndex'', JStr ''endRowIndex'',
                                       JStr ''startColumnIndex'', JStr ''endColumnIndex''])]),
               (''format'', JObj [(''type'', JStr ''object''), (''description'', JStr ''Format to apply'')])]),
           (''required'', JArr [JStr ''spreadsheetId'', JStr ''sheetId'', JStr ''range'', JStr ''format''])]\<rparr>"

definition tool_google_sheets_verify_connection :: Tool where
  "tool_google_sheets_verify_connection =
     \<lparr>name = ''google_sheets_verify_connection'',
      description = ''Verify connection with Google Sheets API and check credentials'',
      inputSchema =
        JObj
          [(''type'', JStr ''object''),
           (''properties'', JObj
              [])]\<rparr>"

definition tool_write_to_sheet :: Tool where
  "tool_write_to_sheet =
     \<lparr>name = ''write_to_sheet'',
      description = ''Write data with headers and rows to a Google Sheet'',
      inputSchema =
        JObj
          [(''type'', JStr ''object''),
           (''properties'', JObj
              [(''spreadsheetId'', JObj [(''type'', JStr ''string''), (''description'', JStr ''ID of the spreadsheet to write to'')]),
               (''sheetName'', JObj [(''type'', JStr ''string''), (''description'', JStr ''Name of the sheet to write to'')]),
               (''data'', JObj [(''type'', JStr ''object''), (''description'', JStr ''Data to write to the sheet''),
                  (''properties'', JObj
                     [(''headers'', JObj [(''type'', JStr ''array''), (''items'', JObj [(''type'', JStr ''string'')]),
                                         (''description'', JStr ''Array of column headers'')]),
                      (''rows'', JObj [(''type'', JStr ''array''),
                                      (''items'', JObj [(''type'', JStr ''array''), (''items'', JObj [])]),
                                      (''description'', JStr ''Array of row data (2D array)'')])]),
                  (''required'', JArr [JStr ''headers'', JStr ''rows''])]),
               (''clearExisting'', JObj [(''type'', JStr ''boolean''), (''description'', JStr ''Whether to clear existing data before writing (default: false)'')])]),
           (''required'', JArr [JStr ''spreadsheetId'', JStr ''sheetName'', JStr ''data''])]\<rparr>"

definition tools :: "Tool list" where
  "tools =
     [tool_google_sheets_create,
      tool_google_sheets_get,
      tool_google_sheets_update_values,
      tool_google_sheets_append_values,
      tool_google_sheets_get_values,
      tool_google_sheets_clear_values,
      tool_google_sheets_add_sheet,
      tool_google_sheets_delete_sheet,
      tool_google_sheets_list,
      tool_google_sheets_delete,
      tool_google_sheets_share,
      tool_google_sheets_search,
      tool_google_sheets_format_cells,
      tool_google_sheets_verify_connection,
      tool_write_to_sheet]"

text \<open>The handler of \<^verbatim>\<open>ListToolsRequestSchema\<close>; it returns the member \<^verbatim>\<open>tools\<close> of its result.\<close>

definition listTools :: "'s \<Rightarrow> Tool list \<times> 's" where
  "listTools s = (tools, s)"

section \<open>The dispatch gateway\<close>

record TextContent =
  type' :: string
  text' :: string

record ResultEnvelope =
  content :: "TextContent list"
  isError :: "bool option"

record CallToolRequest =
  params_name :: string
  params_arguments :: "(string \<rightharpoonup> json) option"

text \<open>What every implemented case returns: the result, pretty-printed, in one text block.\<close>

definition text_result :: "json \<Rightarrow> ResultEnvelope" where
  "text_result result = \<lparr>content = [\<lparr>type' = ''text'', text' = JSON_stringify result\<rparr>], isError = None\<rparr>"

text \<open>
  The body of the \<^verbatim>\<open>try\<close> block: the \<^verbatim>\<open>switch\<close> over \<^verbatim>\<open>request.params.name\<close>. The class
  \<^verbatim>\<open>GoogleSheetsClient\<close> defines no member \<^verbatim>\<open>writeToSheet\<close>, so the call of the last case
  calls \<^verbatim>\<open>undefined\<close>: after its arguments are read, the engine throws a \<^verbatim>\<open>TypeError\<close>.
\<close>

definition dispatch ::
  "'s runtime \<Rightarrow> 's GoogleSheetsClient \<Rightarrow> CallToolRequest \<Rightarrow> (ResultEnvelope, 's) io" where
  "dispatch rt googleSheets request =
     (let args = (case params_arguments request of None \<Rightarrow> Map.empty | Some a \<Rightarrow> a);
          n = params_name request
      in
      if n = ''google_sheets_create'' then
        bind_io (createSpreadsheet rt googleSheets (args ''title'') (args ''sheets''))
          (\<lambda>result. return_io (text_result result))
      else if n = ''google_sheets_get'' then
        bind_io (getSpreadsheet googleSheets (args ''spreadsheetId'') (args ''includeGridData''))
          (\<lambda>result. return_io (text_result result))
      else if n = ''google_sheets_update_values'' then
        bind_io (updateValues googleSheets (args ''spreadsheetId'') (args ''range'')
                   (args ''values'') (args ''valueInputOption''))
          (\<lambda>result. return_io (text_result result))
      else if n = ''google_sheets_append_values'' then
        bind_io (appendValues googleSheets (args ''spreadsheetId'') (args ''range'')
                   (args ''values'') (args ''valueInputOption''))
          (\<lambda>result. return_io (text_result result))
      else if n = ''google_sheets_get_values'' then
        bind_io (getValues googleSheets (args ''spreadsheetId'') (args ''range''))
          (\<lambda>result. return_io (text_result result))
      else if n = ''google_sheets_clear_values'' then
        bind_io (clearValues googleSheets (args ''spreadsheetId'') (args ''range''))
          (\<lambda>result. return_io (text_result result))
      else if n = ''google_sheets_add_sheet'' then
        bind_io (addSheet googleSheets (args ''spreadsheetId'') (args ''sheetTitle''))
          (\<lambda>result. return_io (text_result result))
      else if n = ''google_sheets_delete_sheet'' then
        bind_io (deleteSheet googleSheets (args ''spreadsheetId'') (args ''sheetId''))
          (\<lambda>result. return_io (text_result result))
      else if n = ''google_sheets_list'' then
        bind_io (listSpreadsheets rt googleSheets (args ''pageSize'') (args ''pageToken''))
          (\<lambda>result. return_io (text_result result))
      else if n = ''google_sheets_delete'' then
        bind_io (deleteSpreadsheet googleSheets (args ''spreadsheetId''))
          (\<lambda>result. return_io (text_result result))
      else if n = ''google_sheets_share'' then
        bind_io (shareSpreadsheet googleSheets (args ''spreadsheetId'') (args ''emailAddress'')
                   (args ''role''))
          (\<lambda>result. return_io (text_result result))
      else if n = ''google_sheets_search'' then
        bind_io (searchSpreadsheets rt googleSheets (args ''query'') (args ''pageSize'')
                   (args ''pageToken''))
          (\<lambda>result. return_io (text_result result))
      else if n = ''google_sheets_format_cells'' then
        bind_io (formatCells googleSheets (args ''spreadsheetId'') (args ''sheetId'')
                   (args ''range'') (args ''format''))
          (\<lambda>result. return_io (text_result result))
      else if n = ''google_sheets_verify_connection'' then
        bind_io (verifyConnection rt googleSheets)
          (\<lambda>result. return_io (text_result result))
      else if n = ''write_to_sheet'' then
        throw_io (TypeError_not_a_function rt ''this.googleSheets.writeToSheet'')
      else
        throw_io (McpError rt MethodNotFound (''Unknown tool: '' @ n)))"

text \<open>
  The handler of \<^verbatim>\<open>CallToolRequestSchema\<close>, which the specification calls
  \<^verbatim>\<open>handleCall\<close>: the \<^verbatim>\<open>try\<close> block and its \<^verbatim>\<open>catch\<close>. It returns the envelope and the
  state in which it leaves the remote service. Writing to the console is not modelled.
\<close>

definition error_result :: "js_error \<Rightarrow> ResultEnvelope" where
  "error_result error =
     \<lparr>content = [\<lparr>type' = ''text'', text' = ''Google Sheets API error: '' @ message error\<rparr>],
      isError = Some True\<rparr>"

definition handleCall ::
  "'s runtime \<Rightarrow> 's GoogleSheetsClient \<Rightarrow> CallToolRequest \<Rightarrow> 's \<Rightarrow> ResultEnvelope \<times> 's" where
  "handleCall rt googleSheets request s =
     (case dispatch rt googleSheets request s of
        (Inr envelope, s') \<Rightarrow> (envelope, s')
      | (Inl error, s') \<Rightarrow> (error_result error, s'))"

section \<open>An example service and runtime\<close>

text \<open>
  A small remote service for the concrete instances below: a store of spreadsheets, each a
  list of ranges with their values, and a write quota. It rejects an unknown
  \<^verbatim>\<open>spreadsheetId\<close> with a message that names it; an update is rejected when the quota is
  used up, a clear is not. The runtime builds its messages as Node.js and the protocol
  library print them.
\<close>

record service_state =
  spreadsheets :: "(string \<times> (string \<times> json) list) list"
  write_quota :: nat

definition service_error :: "string \<Rightarrow> js_error" where
  "service_error m = \<lparr>message = m, code = Some (JNum 400), details = None, stack = None\<rparr>"

definition param :: "json \<Rightarrow> string \<Rightarrow> json option" where
  "param p k = (case p of JObj kvs \<Rightarrow> map_of kvs k | _ \<Rightarrow> None)"

definition example_values_update :: "json \<Rightarrow> (json, service_state) io" where
  "example_values_update p s =
     (case map_of (spreadsheets s) (template (param p ''spreadsheetId'')) of
        None \<Rightarrow>
          (Inl (service_error (''Requested entity was not found: ''
                               @ template (param p ''spreadsheetId''))), s)
      | Some ranges \<Rightarrow>
          if write_quota s = 0 then (Inl (service_error ''Quota exceeded''), s)
          else (Inr (obj [(''spreadsheetId'', param p ''spreadsheetId''),
                          (''updatedRange'', param p ''range'')]),
                s\<lparr>spreadsheets :=
                     put_prop (spreadsheets s)
                       (template (param p ''spreadsheetId''),
                        put_prop ranges
                          (template (param p ''range''),
                           case param p ''requestBody'' of
                             Some body \<Rightarrow> (case param body ''values'' of Some v \<Rightarrow> v | None \<Rightarrow> JArr [])
                           | None \<Rightarrow> JArr [])),
                   write_quota := write_quota s - 1\<rparr>))"

definition example_values_clear :: "json \<Rightarrow> (json, service_state) io" where
  "example_values_clear p s =
     (case map_of (spreadsheets s) (template (param p ''spreadsheetId'')) of
        None \<Rightarrow>
          (Inl (service_error (''Requested entity was not found: ''
                               @ template (param p ''spreadsheetId''))), s)
      | Some ranges \<Rightarrow>
          (Inr (obj [(''spreadsheetId'', param p ''spreadsheetId''),
                     (''clearedRange'', param p ''range'')]),
           s\<lparr>spreadsheets :=
                put_prop (spreadsheets s)
                  (template (param p ''spreadsheetId''),
                   filter (\<lambda>kv. fst kv \<noteq> template (param p ''range'')) ranges)\<rparr>))"

definition example_unsupported :: "json \<Rightarrow> (json, service_state) io" where
  "example_unsupported p s = (Inl (service_error ''Unsupported operation''), s)"

definition example_client :: "service_state GoogleSheetsClient" where
  "example_client =
     \<lparr>sheetsClient =
        \<lparr>spreadsheets_create = example_unsupported,
         spreadsheets_get = example_unsupported,
         spreadsheets_batchUpdate = example_unsupported,
         spreadsheets_values_update = example_values_update,
         spreadsheets_values_append = example_unsupported,
         spreadsheets_values_get = example_unsupported,
         spreadsheets_values_clear = example_values_clear\<rparr>,
      driveClient =
        \<lparr>files_list = example_unsupported,
         files_delete = example_unsupported,
         permissions_create = example_unsupported\<rparr>,
      projectId = ''example-project'',
      auth = AuthString ''key''\<rparr>"

definition example_runtime :: "service_state runtime" where
  "example_runtime =
     \<lparr>McpError = (\<lambda>c m. \<lparr>message = ''MCP error '' @ show_int c @ '': '' @ m,
                           code = Some (JNum c), details = None, stack = None\<rparr>),
      TypeError_not_a_function =
        (\<lambda>callee. \<lparr>message = callee @ '' is not a function'',
                    code = None, details = None, stack = None\<rparr>),
      TypeError_read_of_null =
        (\<lambda>p. \<lparr>message = ''Cannot read properties of null (reading '' @ [CHR 0x27] @ p @ [CHR 0x27] @ '')'',
               code = None, details = None, stack = None\<rparr>),
      string_gt_zero = (\<lambda>s. array_index s \<noteq> None \<and> array_index s \<noteq> Some 0),
      Date_toISOString = (\<lambda>s. ''2025-01-01T00:00:00.000Z'')\<rparr>"

definition example_state :: service_state where
  "example_state =
     \<lparr>spreadsheets = [(''S'', [(''Sheet1'', JArr [JArr [JStr ''old'']])])], write_quota = 0\<rparr>"

section \<open>The catalogue table of the specification\<close>

text \<open>
  Section 6 of the specification lists, for each tool, its required arguments, and for a
  structured argument the fields it requires in turn. The table is written here as the
  specification prints it, to be compared with the catalogue of the source.
\<close>

type_synonym table_row = "string \<times> string list \<times> (string \<times> string list) list"

definition interface_table :: "table_row list" where
  "interface_table =
     [(''create'', [''title''], []),
      (''get'', [''spreadsheetId''], []),
      (''update_values'', [''spreadsheetId'', ''range'', ''values''], []),
      (''append_values'', [''spreadsheetId'', ''range'', ''values''], []),
      (''get_values'', [''spreadsheetId'', ''range''], []),
      (''clear_values'', [''spreadsheetId'', ''range''], []),
      (''add_sheet'', [''spreadsheetId'', ''sheetTitle''], []),
      (''delete_sheet'', [''spreadsheetId'', ''sheetId''], []),
      (''list'', [], []),
      (''delete'', [''spreadsheetId''], []),
      (''share'', [''spreadsheetId'', ''emailAddress''], []),
      (''search'', [''query''], []),
      (''format_cells'', [''spreadsheetId'', ''sheetId'', ''range'', ''format''],
         [(''range'', [''startRowIndex'', ''endRowIndex'', ''startColumnIndex'', ''endColumnIndex''])]),
      (''verify_connection'', [], []),
      (''write_to_sheet'', [''spreadsheetId'', ''sheetName'', ''data''],
         [(''data'', [''headers'', ''rows''])])]"

text \<open>
  A row stands for the descriptor that carries its name, with or without the prefix the
  source gives to all tools but the last.
\<close>

definition corresponds :: "string \<Rightarrow> string \<Rightarrow> bool" where
  "corresponds short n = (n = ''google_sheets_'' @ short \<or> n = short)"

definition nested_required :: "(string \<times> string list) list \<Rightarrow> string \<Rightarrow> string list" where
  "nested_required nested f = (case map_of nested f of None \<Rightarrow> [] | Some fs \<Rightarrow> fs)"

text \<open>The members \<^verbatim>\<open>required\<close> and \<^verbatim>\<open>properties\<close> of a schema; an absent one is empty.\<close>

definition required_fields :: "json \<Rightarrow> string list" where
  "required_fields schema =
     (case schema of
        JObj kvs \<Rightarrow>
          (case map_of kvs ''required'' of
             Some (JArr xs) \<Rightarrow> concat (map (\<lambda>x. case x of JStr f \<Rightarrow> [f] | _ \<Rightarrow> []) xs)
           | _ \<Rightarrow> [])
      | _ \<Rightarrow> [])"

definition declared_properties :: "json \<Rightarrow> (string \<times> json) list" where
  "declared_properties schema =
     (case schema of
        JObj kvs \<Rightarrow> (case map_of kvs ''properties'' of Some (JObj ps) \<Rightarrow> ps | _ \<Rightarrow> [])
      | _ \<Rightarrow> [])"

section \<open>Notions of the specification used in the statements\<close>

text \<open>
  A row of the table matches a descriptor when the descriptor requires exactly the listed
  arguments, each of them a declared property, and each declared property requires in
  turn exactly the fields the row lists for it (none, when the row lists none).
\<close>

definition row_matches :: "table_row \<Rightarrow> Tool \<Rightarrow> bool" where
  "row_matches row t =
     (set (required_fields (inputSchema t)) = set (fst (snd row))
      \<and> set (required_fields (inputSchema t)) \<subseteq> set (map fst (declared_properties (inputSchema t)))
      \<and> list_all (\<lambda>p. set (required_fields (snd p)) = set (nested_required (snd (snd row)) (fst p)))
            (declared_properties (inputSchema t)))"

text \<open>
  The form the specification gives to an error envelope: the text
  \<^verbatim>\<open><operation>: <message>\<close>, with the flag set.
\<close>

definition operation_prefixed :: "string \<Rightarrow> js_error \<Rightarrow> ResultEnvelope \<Rightarrow> bool" where
  "operation_prefixed operation error envelope =
     (envelope = \<lparr>content = [\<lparr>type' = ''text'', text' = operation @ '': '' @ message error\<rparr>],
                  isError = Some True\<rparr>)"

text \<open>The arguments of the second end-to-end scenario of the specification.\<close>

definition rejected_update :: "string \<rightharpoonup> json" where
  "rejected_update =
     [''spreadsheetId'' \<mapsto> JStr ''X'', ''range'' \<mapsto> JStr ''Sheet1!A1:B1'',
      ''values'' \<mapsto> JArr [JArr [JStr ''a'', JStr ''b'']]]"

section \<open>Auxiliary facts\<close>

subsection \<open>The catalogue\<close>

lemmas tool_defs =
  tool_google_sheets_create_def tool_google_sheets_get_def tool_google_sheets_update_values_def
  tool_google_sheets_append_values_def tool_google_sheets_get_values_def
  tool_google_sheets_clear_values_def tool_google_sheets_add_sheet_def
  tool_google_sheets_delete_sheet_def tool_google_sheets_list_def tool_google_sheets_delete_def
  tool_google_sheets_share_def tool_google_sheets_search_def tool_google_sheets_format_cells_def
  tool_google_sheets_verify_connection_def tool_write_to_sheet_def

lemma tool_names:
  "map name tools =
     [''google_sheets_create'', ''google_sheets_get'', ''google_sheets_update_values'',
      ''google_sheets_append_values'', ''google_sheets_get_values'',
      ''google_sheets_clear_values'', ''google_sheets_add_sheet'',
      ''google_sheets_delete_sheet'', ''google_sheets_list'', ''google_sheets_delete'',
      ''google_sheets_share'', ''google_sheets_search'', ''google_sheets_format_cells'',
      ''google_sheets_verify_connection'', ''write_to_sheet'']"
  by (simp add: tools_def tool_defs)

lemma tool_name_simps:
  "name tool_google_sheets_create = ''google_sheets_create''"
  "name tool_google_sheets_get = ''google_sheets_get''"
  "name tool_google_sheets_update_values = ''google_sheets_update_values''"
  "name tool_google_sheets_append_values = ''google_sheets_append_values''"
  "name tool_google_sheets_get_values = ''google_sheets_get_values''"
  "name tool_google_sheets_clear_values = ''google_sheets_clear_values''"
  "name tool_google_sheets_add_sheet = ''google_sheets_add_sheet''"
  "name tool_google_sheets_delete_sheet = ''google_sheets_delete_sheet''"
  "name tool_google_sheets_list = ''google_sheets_list''"
  "name tool_google_sheets_delete = ''google_sheets_delete''"
  "name tool_google_sheets_share = ''google_sheets_share''"
  "name tool_google_sheets_search = ''google_sheets_search''"
  "name tool_google_sheets_format_cells = ''google_sheets_format_cells''"
  "name tool_google_sheets_verify_connection = ''google_sheets_verify_connection''"
  "name tool_write_to_sheet = ''write_to_sheet''"
  by (simp_all add: tool_defs)

lemma row_create:
  "filter (\<lambda>t. corresponds ''create'' (name t)) tools = [tool_google_sheets_create]"
  "row_matches (''create'', [''title''], []) tool_google_sheets_create"
  by (simp_all add: tools_def corresponds_def tool_name_simps row_matches_def tool_google_sheets_create_def
      required_fields_def declared_properties_def nested_required_def)

lemma row_get:
  "filter (\<lambda>t. corresponds ''get'' (name t)) tools = [tool_google_sheets_get]"
  "row_matches (''get'', [''spreadsheetId''], []) tool_google_sheets_get"
  by (simp_all add: tools_def corresponds_def tool_name_simps row_matches_def tool_google_sheets_get_def
      required_fields_def declared_properties_def nested_required_def)

lemma row_update_values:
  "filter (\<lambda>t. corresponds ''update_values'' (name t)) tools = [tool_google_sheets_update_values]"
  "row_matches (''update_values'', [''spreadsheetId'', ''range'', ''values''], []) tool_google_sheets_update_values"
  by (simp_all add: tools_def corresponds_def tool_name_simps row_matches_def tool_google_sheets_update_values_def
      required_fields_def declared_properties_def nested_required_def)

lemma row_append_values:
  "filter (\<lambda>t. corresponds ''append_values'' (name t)) tools = [tool_google_sheets_append_values]"
  "row_matches (''append_values'', [''spreadsheetId'', ''range'', ''values''], []) tool_google_sheets_append_values"
  by (simp_all add: tools_def corresponds_def tool_name_simps row_matches_def tool_google_sheets_append_values_def
      required_fields_def declared_properties_def nested_required_def)

lemma row_get_values:
  "filter (\<lambda>t. corresponds ''get_values'' (name t)) tools = [tool_google_sheets_get_values]"
  "row_matches (''get_values'', [''spreadsheetId'', ''range''], []) tool_google_sheets_get_values"
  by (simp_all add: tools_def corresponds_def tool_name_simps row_matches_def tool_google_sheets_get_values_def
      required_fields_def declared_properties_def nested_required_def)

lemma row_clear_values:
  "filter (\<lambda>t. corresponds ''clear_values'' (name t)) tools = [tool_google_sheets_clear_values]"
  "row_matches (''clear_values'', [''spreadsheetId'', ''range''], []) tool_google_sheets_clear_values"
  by (simp_all add: tools_def corresponds_def tool_name_simps row_matches_def tool_google_sheets_clear_values_def
      required_fields_def declared_properties_def nested_required_def)

lemma row_add_sheet:
  "filter (\<lambda>t. corresponds ''add_sheet'' (name t)) tools = [tool_google_sheets_add_sheet]"
  "row_matches (''add_sheet'', [''spreadsheetId'', ''sheetTitle''], []) tool_google_sheets_add_sheet"
  by (simp_all add: tools_def corresponds_def tool_name_simps row_matches_def tool_google_sheets_add_sheet_def
      required_fields_def declared_properties_def nested_required_def)

lemma row_delete_sheet:
  "filter (\<lambda>t. corresponds ''delete_sheet'' (name t)) tools = [tool_google_sheets_delete_sheet]"
  "row_matches (''delete_sheet'', [''spreadsheetId'', ''sheetId''], []) tool_google_sheets_delete_sheet"
  by (simp_all add: tools_def corresponds_def tool_name_simps row_matches_def tool_google_sheets_delete_sheet_def
      required_fields_def declared_properties_def nested_required_def)

lemma row_list:
  "filter (\<lambda>t. corresponds ''list'' (name t)) tools = [tool_google_sheets_list]"
  "row_matches (''list'', [], []) tool_google_sheets_list"
  by (simp_all add: tools_def corresponds_def tool_name_simps row_matches_def tool_google_sheets_list_def
      required_fields_def declared_properties_def nested_required_def)

lemma row_delete:
  "filter (\<lambda>t. corresponds ''delete'' (name t)) tools = [tool_google_sheets_delete]"
  "row_matches (''delete'', [''spreadsheetId''], []) tool_google_sheets_delete"
  by (simp_all add: tools_def corresponds_def tool_name_simps row_matches_def tool_google_sheets_delete_def
      required_fields_def declared_properties_def nested_required_def)

lemma row_share:
  "filter (\<lambda>t. corresponds ''share'' (name t)) tools = [tool_google_sheets_share]"
  "row_matches (''share'', [''spreadsheetId'', ''emailAddress''], []) tool_google_sheets_share"
  by (simp_all add: tools_def corresponds_def tool_name_simps row_matches_def tool_google_sheets_share_def
      required_fields_def declared_properties_def nested_required_def)

lemma row_search:
  "filter (\<lambda>t. corresponds ''search'' (name t)) tools = [tool_google_sheets_search]"
  "row_matches (''search'', [''query''], []) tool_google_sheets_search"
  by (simp_all add: tools_def corresponds_def tool_name_simps row_matches_def tool_google_sheets_search_def
      required_fields_def declared_properties_def nested_required_def)

lemma row_format_cells:
  "filter (\<lambda>t. corresponds ''format_cells'' (name t)) tools = [tool_google_sheets_format_cells]"
  "row_matches (''format_cells'', [''spreadsheetId'', ''sheetId'', ''range'', ''format''], [(''range'', [''startRowIndex'', ''endRowIndex'', ''startColumnIndex'', ''endColumnIndex''])]) tool_google_sheets_format_cells"
  by (simp_all add: tools_def corresponds_def tool_name_simps row_matches_def tool_google_sheets_format_cells_def
      required_fields_def declared_properties_def nested_required_def)

lemma row_verify_connection:
  "filter (\<lambda>t. corresponds ''verify_connection'' (name t)) tools = [tool_google_sheets_verify_connection]"
  "row_matches (''verify_connection'', [], []) tool_google_sheets_verify_connection"
  by (simp_all add: tools_def corresponds_def tool_name_simps row_matches_def tool_google_sheets_verify_connection_def
      required_fields_def declared_properties_def nested_required_def)

lemma row_write_to_sheet:
  "filter (\<lambda>t. corresponds ''write_to_sheet'' (name t)) tools = [tool_write_to_sheet]"
  "row_matches (''write_to_sheet'', [''spreadsheetId'', ''sheetName'', ''data''], [(''data'', [''headers'', ''rows''])]) tool_write_to_sheet"
  by (simp_all add: tools_def corresponds_def tool_name_simps row_matches_def tool_write_to_sheet_def
      required_fields_def declared_properties_def nested_required_def)

subsection \<open>The gateway\<close>

lemma bind_return_Inr:
  "bind_io m (\<lambda>result. return_io (f result)) s = (Inr v, s') \<Longrightarrow> \<exists>result. v = f result"
  by (auto simp: bind_io_def return_io_def split: prod.splits sum.splits)

lemma dispatch_unknown:
  assumes "params_name request \<notin> set (map name tools)"
  shows "dispatch rt c request =
           throw_io (McpError rt MethodNotFound (''Unknown tool: '' @ params_name request))"
  using assms unfolding tool_names dispatch_def Let_def by simp

lemma dispatch_write_to_sheet:
  "dispatch rt c \<lparr>params_name = ''write_to_sheet'', params_arguments = a\<rparr> =
     throw_io (TypeError_not_a_function rt ''this.googleSheets.writeToSheet'')"
  unfolding dispatch_def Let_def by simp

lemma dispatch_Inr_shape:
  assumes "dispatch rt c request s = (Inr v, s')"
  shows "\<exists>result. v = text_result result"
  using assms unfolding dispatch_def Let_def
  by (auto split: if_splits dest: bind_return_Inr simp: throw_io_def)

lemma handleCall_unknown:
  assumes "params_name request \<notin> set (map name tools)"
  shows "handleCall rt c request s =
           (\<lparr>content = [\<lparr>type' = ''text'',
                          text' = ''Google Sheets API error: ''
                                  @ message (McpError rt MethodNotFound
                                       (''Unknown tool: '' @ params_name request))\<rparr>],
             isError = Some True\<rparr>, s)"
  by (simp add: handleCall_def dispatch_unknown [OF assms] throw_io_def error_result_def)

lemma handleCall_cong_dispatch:
  "dispatch rt c r1 s = dispatch rt c r2 s \<Longrightarrow> handleCall rt c r1 s = handleCall rt c r2 s"
  by (simp add: handleCall_def)

lemma stringify_error_payload:
  "JSON_stringify (error_payload error) =
     ''{'' @ [CHR 0x0A] @ ''  '' @ quote ''error'' @ '': '' @ quote (message error) @ [CHR 0x0A] @ ''}''"
  by (simp add: JSON_stringify_def error_payload_def obj_def)

text \<open>A message of printable characters without quote or backslash is quoted as it is.\<close>

lemma quote_plain:
  assumes "list_all (\<lambda>c. 32 \<le> (of_char c :: nat) \<and> c \<noteq> CHR 0x22 \<and> c \<noteq> CHR 0x5C) m"
  shows "quote m = CHR 0x22 # m @ [CHR 0x22]"
proof -
  have "concat (map quote_char m) = m"
    using assms by (induction m) (auto simp: quote_char_def)
  then show ?thesis by (simp add: quote_def)
qed

text \<open>
  Every backend method settles with a payload: its own \<^verbatim>\<open>catch\<close> turns whatever the
  remote call or the code around it throws into a payload. So the \<^verbatim>\<open>try\<close> block of the
  gateway raises for two kinds of request only, and then no remote call was made.
\<close>

lemma try_catch_settles:
  assumes "\<And>e s. \<exists>v s'. h e s = (Inr v, s')"
  shows "\<exists>v s'. try_catch m h s = (Inr v, s')"
proof (cases "m s")
  case (Pair r s1)
  then show ?thesis
    using assms [of _ s1] by (cases r) (auto simp: try_catch_def)
qed

lemma backend_settles:
  "\<exists>v s'. createSpreadsheet rt c a1 a2 s = (Inr v, s')"
  "\<exists>v s'. getSpreadsheet c a1 a2 s = (Inr v, s')"
  "\<exists>v s'. updateValues c a1 a2 a3 a4 s = (Inr v, s')"
  "\<exists>v s'. appendValues c a1 a2 a3 a4 s = (Inr v, s')"
  "\<exists>v s'. getValues c a1 a2 s = (Inr v, s')"
  "\<exists>v s'. clearValues c a1 a2 s = (Inr v, s')"
  "\<exists>v s'. addSheet c a1 a2 s = (Inr v, s')"
  "\<exists>v s'. deleteSheet c a1 a2 s = (Inr v, s')"
  "\<exists>v s'. listSpreadsheets rt c a1 a2 s = (Inr v, s')"
  "\<exists>v s'. deleteSpreadsheet c a1 s = (Inr v, s')"
  "\<exists>v s'. shareSpreadsheet c a1 a2 a3 s = (Inr v, s')"
  "\<exists>v s'. searchSpreadsheets rt c a1 a2 a3 s = (Inr v, s')"
  "\<exists>v s'. formatCells c a1 a2 a3 a4 s = (Inr v, s')"
  "\<exists>v s'. verifyConnection rt c s = (Inr v, s')"
  unfolding createSpreadsheet_def getSpreadsheet_def updateValues_def appendValues_def
    getValues_def clearValues_def addSheet_def deleteSheet_def listSpreadsheets_def
    deleteSpreadsheet_def shareSpreadsheet_def searchSpreadsheets_def formatCells_def
    verifyConnection_def
  by (rule try_catch_settles, simp add: return_io_def)+

lemma bind_return_settles:
  assumes "\<exists>v s1. m s = (Inr v, s1)"
  shows "bind_io m (\<lambda>result. return_io (f result)) s \<noteq> (Inl e, s')"
  using assms by (auto simp: bind_io_def return_io_def)

lemma dispatch_raises_only:
  assumes "dispatch rt c request s = (Inl error, s')"
  shows "s' = s \<and> (params_name request = ''write_to_sheet''
                     \<or> params_name request \<notin> set (map name tools))"
  using assms unfolding dispatch_def Let_def tool_names
  by (auto split: if_splits simp: throw_io_def bind_return_settles backend_settles)

subsection \<open>The example service\<close>

lemma example_McpError_message:
  "message (McpError example_runtime code' m) = (''MCP error '' @ show_int code' @ '': '') @ m"
  by (simp add: example_runtime_def)

lemma example_update_rejected:
  "spreadsheets_values_update (sheetsClient example_client)
     (obj [(''spreadsheetId'', rejected_update ''spreadsheetId''),
           (''range'', rejected_update ''range''),
           (''valueInputOption'',
              default_param (rejected_update ''valueInputOption'') (JStr ''USER_ENTERED'')),
           (''requestBody'', Some (obj [(''values'', rejected_update ''values'')]))]) example_state
   = (Inl (service_error ''Requested entity was not found: X''), example_state)"
  by (simp add: example_client_def example_values_update_def rejected_update_def obj_def
      default_param_def param_def template_def example_state_def)

section \<open>The claims\<close>

text \<open>
  C1, as the code has it: when the remote service rejects the update that
  \<^verbatim>\<open>update_values\<close> issues, the backend method catches the error and returns the payload
  \<^verbatim>\<open>{error: message}\<close>, which the gateway pretty-prints like any result. The envelope
  carries the message in its text block and no \<^verbatim>\<open>isError\<close> flag.
\<close>

theorem update_values_failure_in_payload:
  assumes "spreadsheets_values_update (sheetsClient c)
             (obj [(''spreadsheetId'', args ''spreadsheetId''),
                   (''range'', args ''range''),
                   (''valueInputOption'',
                      default_param (args ''valueInputOption'') (JStr ''USER_ENTERED'')),
                   (''requestBody'', Some (obj [(''values'', args ''values'')]))]) s
           = (Inl error, s')"
  shows "handleCall rt c
           \<lparr>params_name = ''google_sheets_update_values'', params_arguments = Some args\<rparr> s =
         (\<lparr>content = [\<lparr>type' = ''text'',
                        text' = ''{'' @ [CHR 0x0A] @ ''  '' @ quote ''error'' @ '': ''
                                @ quote (message error) @ [CHR 0x0A] @ ''}''\<rparr>],
           isError = None\<rparr>, s')"
  using assms
  by (simp add: handleCall_def dispatch_def updateValues_def try_catch_def bind_io_def
      return_io_def text_result_def stringify_error_payload)

theorem update_values_failure_in_payload_witness:
  "handleCall example_runtime example_client
     \<lparr>params_name = ''google_sheets_update_values'', params_arguments = Some rejected_update\<rparr>
     example_state =
   (\<lparr>content = [\<lparr>type' = ''text'',
                  text' = ''{'' @ [CHR 0x0A] @ ''  '' @ [CHR 0x22] @ ''error'' @ [CHR 0x22] @ '': ''
                          @ [CHR 0x22] @ ''Requested entity was not found: X'' @ [CHR 0x22]
                          @ [CHR 0x0A] @ ''}''\<rparr>],
     isError = None\<rparr>, example_state)"
  using update_values_failure_in_payload [OF example_update_rejected, of example_runtime]
  by (simp add: service_error_def quote_def quote_char_def)

text \<open>
  C1 as stated fails: the example service rejects the spreadsheet \<^verbatim>\<open>X\<close> of the
  scenario, and the envelope returned for that call has no \<^verbatim>\<open>isError\<close> flag.
\<close>

theorem update_values_isError_counterexample:
  "fst (spreadsheets_values_update (sheetsClient example_client)
     (obj [(''spreadsheetId'', Some (JStr ''X'')),
           (''range'', Some (JStr ''Sheet1!A1:B1'')),
           (''valueInputOption'', Some (JStr ''USER_ENTERED'')),
           (''requestBody'', Some (obj [(''values'', Some (JArr [JArr [JStr ''a'', JStr ''b'']]))]))])
     example_state)
   = Inl (service_error ''Requested entity was not found: X'')
   \<and> isError (fst (handleCall example_runtime example_client
        \<lparr>params_name = ''google_sheets_update_values'',
         params_arguments =
           Some [''spreadsheetId'' \<mapsto> JStr ''X'', ''range'' \<mapsto> JStr ''Sheet1!A1:B1'',
                 ''values'' \<mapsto> JArr [JArr [JStr ''a'', JStr ''b'']]]\<rparr>
        example_state)) = None"
  by (simp add: handleCall_def dispatch_def Let_def updateValues_def try_catch_def bind_io_def
      return_io_def text_result_def example_client_def example_values_update_def obj_def
      default_param_def param_def template_def example_state_def)

text \<open>
  C2: whatever the arguments, a call of \<^verbatim>\<open>write_to_sheet\<close> returns the error envelope,
  its text starting with \<^verbatim>\<open>Google Sheets API error: \<close>, and leaves the remote service as
  it was: the client has no method \<^verbatim>\<open>writeToSheet\<close>, the call throws and the gateway
  catches.
\<close>

theorem write_to_sheet_always_error:
  "handleCall rt c \<lparr>params_name = ''write_to_sheet'', params_arguments = a\<rparr> s =
     (\<lparr>content = [\<lparr>type' = ''text'',
                    text' = ''Google Sheets API error: ''
                            @ message (TypeError_not_a_function rt ''this.googleSheets.writeToSheet'')\<rparr>],
       isError = Some True\<rparr>, s)"
  by (simp add: handleCall_def dispatch_write_to_sheet throw_io_def error_result_def)

text \<open>
  C3: for every tool name and every argument mapping the gateway returns an envelope of
  one text block, with \<^verbatim>\<open>isError\<close> either absent or true; what the \<^verbatim>\<open>try\<close> block throws
  ends in the \<^verbatim>\<open>catch\<close>.
\<close>

theorem handleCall_returns_envelope:
  "\<exists>t e. fst (handleCall rt c request s) = \<lparr>content = [\<lparr>type' = ''text'', text' = t\<rparr>], isError = e\<rparr>
         \<and> e \<in> {None, Some True}"
proof (cases "dispatch rt c request s")
  case (Pair r s')
  show ?thesis
  proof (cases r)
    case (Inl error)
    with Pair show ?thesis by (simp add: handleCall_def error_result_def)
  next
    case (Inr v)
    with Pair have "dispatch rt c request s = (Inr v, s')" by simp
    then have "\<exists>result. v = text_result result" by (rule dispatch_Inr_shape)
    then obtain result where "v = text_result result" ..
    with Pair Inr show ?thesis by (simp add: handleCall_def text_result_def)
  qed
qed

text \<open>
  C4: for a tool name that is none of the fifteen names of the catalogue the gateway
  returns the error envelope, and its text mentions the name, provided the message of the
  protocol library's error contains the text given to its constructor. The remote
  service is not called.
\<close>

theorem unknown_tool_reported:
  assumes "params_name request \<notin> set (map name tools)"
    and "\<And>code' m. \<exists>pre post. message (McpError rt code' m) = pre @ m @ post"
  shows "\<exists>pre post. handleCall rt c request s =
           (\<lparr>content = [\<lparr>type' = ''text'', text' = pre @ params_name request @ post\<rparr>],
             isError = Some True\<rparr>, s)"
proof -
  obtain pre post
    where "message (McpError rt MethodNotFound (''Unknown tool: '' @ params_name request))
             = pre @ (''Unknown tool: '' @ params_name request) @ post"
    using assms(2) by blast
  then have "handleCall rt c request s =
           (\<lparr>content = [\<lparr>type' = ''text'',
               text' = (''Google Sheets API error: '' @ pre @ ''Unknown tool: '')
                       @ params_name request @ post\<rparr>],
             isError = Some True\<rparr>, s)"
    by (simp add: handleCall_unknown [OF assms(1)])
  then show ?thesis by blast
qed

theorem unknown_tool_reported_witness:
  "\<exists>pre post. handleCall example_runtime example_client
            \<lparr>params_name = ''nope'', params_arguments = None\<rparr> example_state =
           (\<lparr>content = [\<lparr>type' = ''text'', text' = pre @ ''nope'' @ post\<rparr>],
             isError = Some True\<rparr>, example_state)"
proof -
  have a: "params_name \<lparr>params_name = ''nope'', params_arguments = None\<rparr> \<notin> set (map name tools)"
    unfolding tool_names by simp
  have b: "\<And>code' m. \<exists>pre post. message (McpError example_runtime code' m) = pre @ m @ post"
  proof -
    fix code' m
    have "message (McpError example_runtime code' m) = (''MCP error '' @ show_int code' @ '': '') @ m @ []"
      by (simp add: example_McpError_message)
    then show "\<exists>pre post. message (McpError example_runtime code' m) = pre @ m @ post"
      by blast
  qed
  show ?thesis
    using unknown_tool_reported [OF a b, of example_client example_state] by simp
qed

text \<open>
  C5, as the code has it: when the \<^verbatim>\<open>try\<close> block raises, the envelope has the flag set
  and one text block, the message of the error after the fixed prefix
  \<^verbatim>\<open>Google Sheets API error: \<close>. The prefix is the same for every tool.
\<close>

theorem dispatch_exception_reported:
  assumes "dispatch rt c request s = (Inl error, s')"
  shows "handleCall rt c request s =
           (\<lparr>content = [\<lparr>type' = ''text'',
                          text' = ''Google Sheets API error: '' @ message error\<rparr>],
             isError = Some True\<rparr>, s')"
  using assms by (simp add: handleCall_def error_result_def)

theorem dispatch_exception_reported_witness:
  "handleCall example_runtime example_client
     \<lparr>params_name = ''write_to_sheet'', params_arguments = None\<rparr> example_state =
   (\<lparr>content = [\<lparr>type' = ''text'',
        text' = ''Google Sheets API error: this.googleSheets.writeToSheet is not a function''\<rparr>],
     isError = Some True\<rparr>, example_state)"
proof -
  have "dispatch example_runtime example_client
          \<lparr>params_name = ''write_to_sheet'', params_arguments = None\<rparr> example_state
        = (Inl (TypeError_not_a_function example_runtime ''this.googleSheets.writeToSheet''),
           example_state)"
    by (simp add: dispatch_write_to_sheet throw_io_def)
  from dispatch_exception_reported [OF this] show ?thesis
    by (simp add: example_runtime_def)
qed

text \<open>
  C5 as stated fails: a call of the unknown tool \<^verbatim>\<open>nope\<close> raises, and so does a call of
  \<^verbatim>\<open>write_to_sheet\<close>; in neither case is the text returned the message prefixed with the
  name of the tool.
\<close>

theorem operation_prefix_counterexample:
  "dispatch example_runtime example_client
     \<lparr>params_name = ''nope'', params_arguments = None\<rparr> example_state
   = (Inl (McpError example_runtime MethodNotFound ''Unknown tool: nope''), example_state)
   \<and> fst (handleCall example_runtime example_client
            \<lparr>params_name = ''nope'', params_arguments = None\<rparr> example_state)
     = \<lparr>content = [\<lparr>type' = ''text'',
          text' = ''Google Sheets API error: MCP error -32601: Unknown tool: nope''\<rparr>],
        isError = Some True\<rparr>
   \<and> \<not> operation_prefixed ''nope''
         (McpError example_runtime MethodNotFound ''Unknown tool: nope'')
         (fst (handleCall example_runtime example_client
                 \<lparr>params_name = ''nope'', params_arguments = None\<rparr> example_state))
   \<and> dispatch example_runtime example_client
       \<lparr>params_name = ''write_to_sheet'', params_arguments = None\<rparr> example_state
     = (Inl (TypeError_not_a_function example_runtime ''this.googleSheets.writeToSheet''),
        example_state)
   \<and> \<not> operation_prefixed ''write_to_sheet''
         (TypeError_not_a_function example_runtime ''this.googleSheets.writeToSheet'')
         (fst (handleCall example_runtime example_client
                 \<lparr>params_name = ''write_to_sheet'', params_arguments = None\<rparr> example_state))"
proof -
  have n: "params_name \<lparr>params_name = ''nope'', params_arguments = None\<rparr>
             \<notin> set (map name tools)"
    unfolding tool_names by simp
  have m: "message (McpError example_runtime MethodNotFound ''Unknown tool: nope'')
             = ''MCP error -32601: Unknown tool: nope''"
    by (simp add: example_runtime_def MethodNotFound_def show_int_def show_nat.simps
        digit_char_def)
  show ?thesis
    using m
    by (simp add: handleCall_def dispatch_unknown [OF n] dispatch_write_to_sheet throw_io_def
        error_result_def operation_prefixed_def)
qed

text \<open>
  C6, on the code: a call of \<^verbatim>\<open>write_to_sheet\<close> with \<^verbatim>\<open>clearExisting\<close> true, against a
  service on which clearing the range would succeed and the following write would be
  rejected. The gateway reports the error, but no clear step has run: the range still
  holds its old values.
\<close>

theorem write_to_sheet_leaves_range:
  "handleCall example_runtime example_client
     \<lparr>params_name = ''write_to_sheet'',
      params_arguments =
        Some [''spreadsheetId'' \<mapsto> JStr ''S'', ''sheetName'' \<mapsto> JStr ''Sheet1'',
              ''data'' \<mapsto> JObj [(''headers'', JArr [JStr ''h'']),
                                 (''rows'', JArr [JArr [JStr ''r'']])],
              ''clearExisting'' \<mapsto> JBool True]\<rparr>
     example_state =
   (\<lparr>content = [\<lparr>type' = ''text'',
        text' = ''Google Sheets API error: this.googleSheets.writeToSheet is not a function''\<rparr>],
     isError = Some True\<rparr>, example_state)
   \<and> map_of (spreadsheets example_state) ''S'' = Some [(''Sheet1'', JArr [JArr [JStr ''old'']])]
   \<and> spreadsheets_values_clear (sheetsClient example_client)
        (obj [(''spreadsheetId'', Some (JStr ''S'')), (''range'', Some (JStr ''Sheet1''))])
        example_state
      = (Inr (JObj [(''spreadsheetId'', JStr ''S''), (''clearedRange'', JStr ''Sheet1'')]),
         \<lparr>spreadsheets = [(''S'', [])], write_quota = 0\<rparr>)
   \<and> fst (spreadsheets_values_update (sheetsClient example_client)
        (obj [(''spreadsheetId'', Some (JStr ''S'')), (''range'', Some (JStr ''Sheet1'')),
              (''valueInputOption'', Some (JStr ''USER_ENTERED'')),
              (''requestBody'', Some (obj [(''values'',
                 Some (JArr [JArr [JStr ''h''], JArr [JStr ''r'']]))]))])
        \<lparr>spreadsheets = [(''S'', [])], write_quota = 0\<rparr>)
      = Inl (service_error ''Quota exceeded'')"
  by (simp add: handleCall_def dispatch_write_to_sheet throw_io_def error_result_def
      example_runtime_def example_client_def example_values_update_def example_values_clear_def
      obj_def param_def template_def example_state_def)

text \<open>
  C7: the catalogue has as many descriptors as the table has rows, and for every row
  exactly one descriptor carries its name; that descriptor requires exactly the arguments
  the row lists, nested fields included, and every other declared property is optional.
\<close>

theorem catalogue_matches_table:
  "length tools = length interface_table \<and>
   (\<forall>row \<in> set interface_table.
      \<exists>t. filter (\<lambda>t. corresponds (fst row) (name t)) tools = [t] \<and> row_matches row t)"
proof -
  have "length tools = length interface_table"
    by (simp add: tools_def interface_table_def)
  moreover have "\<forall>row \<in> set interface_table.
      \<exists>t. filter (\<lambda>t. corresponds (fst row) (name t)) tools = [t] \<and> row_matches row t"
    unfolding interface_table_def
    by (simp add: row_create row_get row_update_values row_append_values row_get_values row_clear_values row_add_sheet row_delete_sheet row_list row_delete row_share row_search row_format_cells row_verify_connection row_write_to_sheet)
  ultimately show ?thesis by simp
qed

theorem catalogue_matches_table_witness:
  "(''format_cells'', [''spreadsheetId'', ''sheetId'', ''range'', ''format''],
      [(''range'', [''startRowIndex'', ''endRowIndex'', ''startColumnIndex'', ''endColumnIndex''])])
     \<in> set interface_table
   \<and> (\<exists>t. filter (\<lambda>t. corresponds ''format_cells'' (name t)) tools = [t]
          \<and> row_matches
               (''format_cells'', [''spreadsheetId'', ''sheetId'', ''range'', ''format''],
                [(''range'', [''startRowIndex'', ''endRowIndex'', ''startColumnIndex'',
                              ''endColumnIndex''])]) t)"
proof -
  have m: "(''format_cells'', [''spreadsheetId'', ''sheetId'', ''range'', ''format''],
      [(''range'', [''startRowIndex'', ''endRowIndex'', ''startColumnIndex'', ''endColumnIndex''])])
     \<in> set interface_table"
    by (simp add: interface_table_def)
  from catalogue_matches_table have "\<forall>row \<in> set interface_table.
      \<exists>t. filter (\<lambda>t. corresponds (fst row) (name t)) tools = [t] \<and> row_matches row t"
    by (rule conjunct2)
  from bspec [OF this m] m show ?thesis by simp
qed

text \<open>C8: no two descriptors of the catalogue carry the same name.\<close>

theorem tool_names_unique: "distinct (map name tools)"
  unfolding tool_names by simp

text \<open>
  C9: listing the catalogue returns the fifteen descriptors of \<^verbatim>\<open>tools\<close>, the same
  sequence whatever the state of the remote service, and leaves that state as it was.
\<close>

theorem listTools_deterministic:
  "fst (listTools s1) = tools \<and> fst (listTools s1) = fst (listTools s2) \<and> snd (listTools s1) = s1
   \<and> length (fst (listTools s1)) = 15"
  by (simp add: listTools_def tools_def)

text \<open>
  C10: leaving out an argument that has a default is the same call as passing the
  default: \<^verbatim>\<open>valueInputOption\<close> \<^verbatim>\<open>USER_ENTERED\<close> for \<^verbatim>\<open>update_values\<close> and
  \<^verbatim>\<open>append_values\<close>, \<^verbatim>\<open>role\<close> \<^verbatim>\<open>reader\<close> for \<^verbatim>\<open>share\<close>, \<^verbatim>\<open>pageSize\<close> 10 for
  \<^verbatim>\<open>list\<close> (also when it has no arguments at all) and \<^verbatim>\<open>search\<close>, \<^verbatim>\<open>includeGridData\<close>
  false for \<^verbatim>\<open>get\<close>.
\<close>

theorem omitted_argument_is_default:
  "handleCall rt c \<lparr>params_name = ''google_sheets_update_values'',
                    params_arguments = Some (args(''valueInputOption'' := None))\<rparr> s
   = handleCall rt c \<lparr>params_name = ''google_sheets_update_values'',
                      params_arguments = Some (args(''valueInputOption'' \<mapsto> JStr ''USER_ENTERED''))\<rparr> s
   \<and> handleCall rt c \<lparr>params_name = ''google_sheets_append_values'',
                      params_arguments = Some (args(''valueInputOption'' := None))\<rparr> s
   = handleCall rt c \<lparr>params_name = ''google_sheets_append_values'',
                      params_arguments = Some (args(''valueInputOption'' \<mapsto> JStr ''USER_ENTERED''))\<rparr> s
   \<and> handleCall rt c \<lparr>params_name = ''google_sheets_share'',
                      params_arguments = Some (args(''role'' := None))\<rparr> s
   = handleCall rt c \<lparr>params_name = ''google_sheets_share'',
                      params_arguments = Some (args(''role'' \<mapsto> JStr ''reader''))\<rparr> s
   \<and> handleCall rt c \<lparr>params_name = ''google_sheets_list'',
                      params_arguments = Some (args(''pageSize'' := None))\<rparr> s
   = handleCall rt c \<lparr>params_name = ''google_sheets_list'',
                      params_arguments = Some (args(''pageSize'' \<mapsto> JNum 10))\<rparr> s
   \<and> handleCall rt c \<lparr>params_name = ''google_sheets_list'', params_arguments = None\<rparr> s
   = handleCall rt c \<lparr>params_name = ''google_sheets_list'',
                      params_arguments = Some [''pageSize'' \<mapsto> JNum 10]\<rparr> s
   \<and> handleCall rt c \<lparr>params_name = ''google_sheets_search'',
                      params_arguments = Some (args(''pageSize'' := None))\<rparr> s
   = handleCall rt c \<lparr>params_name = ''google_sheets_search'',
                      params_arguments = Some (args(''pageSize'' \<mapsto> JNum 10))\<rparr> s
   \<and> handleCall rt c \<lparr>params_name = ''google_sheets_get'',
                      params_arguments = Some (args(''includeGridData'' := None))\<rparr> s
   = handleCall rt c \<lparr>params_name = ''google_sheets_get'',
                      params_arguments = Some (args(''includeGridData'' \<mapsto> JBool False))\<rparr> s"
proof (intro conjI)
  show "handleCall rt c \<lparr>params_name = ''google_sheets_update_values'',
                    params_arguments = Some (args(''valueInputOption'' := None))\<rparr> s
   = handleCall rt c \<lparr>params_name = ''google_sheets_update_values'',
                      params_arguments = Some (args(''valueInputOption'' \<mapsto> JStr ''USER_ENTERED''))\<rparr> s"
    by (rule handleCall_cong_dispatch) (simp add: dispatch_def updateValues_def default_param_def)
  show "handleCall rt c \<lparr>params_name = ''google_sheets_append_values'',
                      params_arguments = Some (args(''valueInputOption'' := None))\<rparr> s
   = handleCall rt c \<lparr>params_name = ''google_sheets_append_values'',
                      params_arguments = Some (args(''valueInputOption'' \<mapsto> JStr ''USER_ENTERED''))\<rparr> s"
    by (rule handleCall_cong_dispatch) (simp add: dispatch_def appendValues_def default_param_def)
  show "handleCall rt c \<lparr>params_name = ''google_sheets_share'',
                      params_arguments = Some (args(''role'' := None))\<rparr> s
   = handleCall rt c \<lparr>params_name = ''google_sheets_share'',
                      params_arguments = Some (args(''role'' \<mapsto> JStr ''reader''))\<rparr> s"
    by (rule handleCall_cong_dispatch) (simp add: dispatch_def shareSpreadsheet_def default_param_def)
  show "handleCall rt c \<lparr>params_name = ''google_sheets_list'',
                      params_arguments = Some (args(''pageSize'' := None))\<rparr> s
   = handleCall rt c \<lparr>params_name = ''google_sheets_list'',
                      params_arguments = Some (args(''pageSize'' \<mapsto> JNum 10))\<rparr> s"
    by (rule handleCall_cong_dispatch) (simp add: dispatch_def listSpreadsheets_def default_param_def)
  show "handleCall rt c \<lparr>params_name = ''google_sheets_list'', params_arguments = None\<rparr> s
   = handleCall rt c \<lparr>params_name = ''google_sheets_list'',
                      params_arguments = Some [''pageSize'' \<mapsto> JNum 10]\<rparr> s"
    by (rule handleCall_cong_dispatch) (simp add: dispatch_def listSpreadsheets_def default_param_def)
  show "handleCall rt c \<lparr>params_name = ''google_sheets_search'',
                      params_arguments = Some (args(''pageSize'' := None))\<rparr> s
   = handleCall rt c \<lparr>params_name = ''google_sheets_search'',
                      params_arguments = Some (args(''pageSize'' \<mapsto> JNum 10))\<rparr> s"
    by (rule handleCall_cong_dispatch) (simp add: dispatch_def searchSpreadsheets_def default_param_def)
  show "handleCall rt c \<lparr>params_name = ''google_sheets_get'',
                      params_arguments = Some (args(''includeGridData'' := None))\<rparr> s
   = handleCall rt c \<lparr>params_name = ''google_sheets_get'',
                      params_arguments = Some (args(''includeGridData'' \<mapsto> JBool False))\<rparr> s"
    by (rule handleCall_cong_dispatch) (simp add: dispatch_def getSpreadsheet_def default_param_def)
qed

end
